theory Spec2Isabelle
  imports Main "HOL-Library.Multiset"
begin

section \<open>The element generator of \<open>main.go\<close>\<close>

text \<open>
  The program generates, for every entry of a catalog of HTML elements, two Go source
  files from two fixed templates. This theory embeds the program as HOL functions:
  the name derivation of the loop body of \<open>main\<close>, the two templates and their
  execution, \<open>executeTemplate\<close>, and the loop of \<open>main\<close> itself.

  A Go \<open>string\<close> is a sequence of bytes; it is modelled as a \<open>string\<close> (a list of
  \<open>char\<close>, each one byte). Indexing \<open>s[0]\<close> reads one byte and panics on the empty
  string, \<open>s[1:]\<close> drops one byte.

  The program calls Go's standard library. What it uses of it is modelled here as the
  library documents it: \<open>strings.ToUpper\<close> on the conversion of one byte,
  \<open>text/template\<close> for templates of text, fields and ranges, and \<open>filepath.Join\<close>
  with \<open>filepath.Clean\<close> on a system whose separator is the slash. The formatter
  \<open>format.Source\<close> and the file system are parameters: the environment of a run.
\<close>

subsection \<open>Data (the \<open>type\<close> block of the source)\<close>

record Attr =
  a_Name :: string
  a_Override :: string
  a_Type :: string

record Desc =
  d_Override :: string
  d_Attributes :: "Attr list"

record templAttr =
  t_Name :: string
  t_JS :: string
  t_Type :: string

record templElem =
  e_Elem :: string
  e_Name :: string
  e_Props :: string
  e_Upper :: string
  e_Attrs :: "templAttr list"

text \<open>
  A Go \<open>error\<close> value offers its message only. What stops the program is a panic: the
  run-time panic of an index out of range, or \<open>panic(err)\<close> with an error value.
\<close>

type_synonym go_error = string

datatype panic = IndexOutOfRange | Panic go_error

subsection \<open>\<open>strings.ToUpper(string(b))\<close> for a byte \<open>b\<close>\<close>

text \<open>
  \<open>utf8.EncodeRune\<close>: the UTF-8 bytes of a code point (a surrogate or a value beyond
  U+10FFFF is replaced by U+FFFD).
\<close>

definition utf8_EncodeRune :: "nat \<Rightarrow> string" where
  "utf8_EncodeRune r =
     (if r \<le> 0x7F then [char_of r]
      else if r \<le> 0x7FF then [char_of (0xC0 + r div 64), char_of (0x80 + r mod 64)]
      else if r > 0x10FFFF \<or> (0xD800 \<le> r \<and> r \<le> 0xDFFF) then [CHR 0xEF, CHR 0xBF, CHR 0xBD]
      else if r \<le> 0xFFFF then
        [char_of (0xE0 + r div 4096), char_of (0x80 + (r div 64) mod 64), char_of (0x80 + r mod 64)]
      else
        [char_of (0xF0 + r div 262144), char_of (0x80 + (r div 4096) mod 64),
         char_of (0x80 + (r div 64) mod 64), char_of (0x80 + r mod 64)])"

text \<open>
  \<open>unicode.ToUpper\<close> on the code points U+0000 to U+00FF, the only ones that the
  conversion of a byte can give: the ASCII letters, the Latin-1 letters U+00E0 to U+00FE
  (but the division sign U+00F7), the micro sign U+00B5 (to U+039C) and U+00FF (to
  U+0178). Every other code point of that range is its own upper case.
\<close>

definition unicode_ToUpper :: "nat \<Rightarrow> nat" where
  "unicode_ToUpper r =
     (if r \<le> 0x7F then (if 0x61 \<le> r \<and> r \<le> 0x7A then r - 32 else r)
      else if r = 0xB5 then 0x39C
      else if (0xE0 \<le> r \<and> r \<le> 0xF6) \<or> (0xF8 \<le> r \<and> r \<le> 0xFE) then r - 32
      else if r = 0xFF then 0x178
      else r)"

text \<open>
  The conversion \<open>string(b)\<close> of a byte is the UTF-8 encoding of the code point with
  the byte's value: one byte below 0x80, two bytes from 0x80 on. \<open>strings.ToUpper\<close>
  of that one-character string maps its code point with \<open>unicode.ToUpper\<close> and
  encodes the result again.
\<close>

definition ToUpper_of_byte :: "char \<Rightarrow> string" where
  "ToUpper_of_byte b = utf8_EncodeRune (unicode_ToUpper (of_char b))"

subsection \<open>Name derivation (the first half of the loop body of \<open>main\<close>)\<close>

text \<open>The variable \<open>upper\<close>: the override, or the key with \<open>k[0]\<close> in upper case.\<close>

definition main_upper :: "string \<Rightarrow> Desc \<Rightarrow> panic + string" where
  "main_upper k v =
     (if d_Override v \<noteq> [] then Inr (d_Override v)
      else (case k of
              [] \<Rightarrow> Inl IndexOutOfRange
            | b # rest \<Rightarrow> Inr (ToUpper_of_byte b @ rest)))"

text \<open>The body of the loop over \<open>v.Attributes\<close>: one \<open>templAttr\<close> for one \<open>Attr\<close>.\<close>

definition main_attr :: "Attr \<Rightarrow> panic + templAttr" where
  "main_attr a =
     (let js = a_Name a in
      case (if a_Override a = [] then
              (case js of
                 [] \<Rightarrow> Inl IndexOutOfRange
               | b # rest \<Rightarrow> Inr (ToUpper_of_byte b @ rest))
            else Inr (a_Override a)) of
        Inl p \<Rightarrow> Inl p
      | Inr name \<Rightarrow>
          (let t = (if a_Type a = [] then ''string'' else a_Type a)
           in Inr \<lparr>t_Name = name, t_JS = js, t_Type = t\<rparr>))"

text \<open>The loop over \<open>v.Attributes\<close>, appending to \<open>attrs\<close>.\<close>

fun main_attrs :: "Attr list \<Rightarrow> templAttr list \<Rightarrow> panic + templAttr list" where
  "main_attrs [] attrs = Inr attrs"
| "main_attrs (a # as) attrs =
     (case main_attr a of
        Inl p \<Rightarrow> Inl p
      | Inr ta \<Rightarrow> main_attrs as (attrs @ [ta]))"

text \<open>The value \<open>e\<close> that the templates are executed on.\<close>

definition main_elem :: "string \<Rightarrow> Desc \<Rightarrow> panic + templElem" where
  "main_elem k v =
     (case main_upper k v of
        Inl p \<Rightarrow> Inl p
      | Inr upper \<Rightarrow>
          (case main_attrs (d_Attributes v) [] of
             Inl p \<Rightarrow> Inl p
           | Inr attrs \<Rightarrow>
               Inr \<lparr>e_Elem = upper @ ''Elem'', e_Name = k, e_Props = upper @ ''Props'',
                    e_Upper = upper, e_Attrs = attrs\<rparr>))"

subsection \<open>Templates (\<open>text/template\<close>) and their execution\<close>

text \<open>
  A parsed template is a list of nodes: literal text, the action \<open>{{ .F }}\<close> that
  prints the field \<open>F\<close> of the current value (the dot), and
  \<open>{{ range .F }} ... {{ end }}\<close> that runs its body once for every element of the
  slice in field \<open>F\<close>, with the dot set to that element. The data a template is
  executed on is seen through reflection: a string, a struct with named fields, or a
  slice.
\<close>

datatype node = Text string | Field string | Range string "node list"

datatype tvalue = VString string | VStruct "(string \<times> tvalue) list" | VSlice "tvalue list"

record template =
  tmpl_name :: string
  tmpl_Root :: "node list"

fun strings_Join :: "string list \<Rightarrow> string \<Rightarrow> string" where
  "strings_Join [] sep = []"
| "strings_Join [a] sep = a"
| "strings_Join (a # b # rest) sep = a @ sep @ strings_Join (b # rest) sep"

text \<open>
  A value is printed as \<open>fmt.Fprint\<close> prints it: a string as it is, a struct as its
  fields in braces, a slice as its elements in brackets.
\<close>

fun printValue :: "tvalue \<Rightarrow> string" where
  "printValue (VString s) = s"
| "printValue (VStruct fs) = ''{'' @ strings_Join (map (\<lambda>f. printValue (snd f)) fs) '' '' @ ''}''"
| "printValue (VSlice vs) = ''['' @ strings_Join (map printValue vs) '' '' @ '']''"

text \<open>A field of the dot; a name that the dot does not have is an execution error.\<close>

fun evalField :: "tvalue \<Rightarrow> string \<Rightarrow> go_error + tvalue" where
  "evalField (VStruct fs) f =
     (case map_of fs f of
        Some v \<Rightarrow> Inr v
      | None \<Rightarrow> Inl (''can't evaluate field '' @ f))"
| "evalField _ f = Inl (''can't evaluate field '' @ f)"

text \<open>Running a step on every element of a list, in order, up to the first error.\<close>

fun each :: "('a \<Rightarrow> go_error + string) \<Rightarrow> 'a list \<Rightarrow> go_error + string" where
  "each step [] = Inr []"
| "each step (x # xs) =
     (case step x of
        Inl err \<Rightarrow> Inl err
      | Inr s \<Rightarrow> (case each step xs of Inl err \<Rightarrow> Inl err | Inr t \<Rightarrow> Inr (s @ t)))"

fun walk :: "tvalue \<Rightarrow> node \<Rightarrow> go_error + string"
  and walkList :: "tvalue \<Rightarrow> node list \<Rightarrow> go_error + string" where
  "walk dot (Text s) = Inr s"
| "walk dot (Field f) =
     (case evalField dot f of
        Inl err \<Rightarrow> Inl err
      | Inr v \<Rightarrow> Inr (printValue v))"
| "walk dot (Range f body) =
     (case evalField dot f of
        Inl err \<Rightarrow> Inl err
      | Inr (VSlice vs) \<Rightarrow> each (\<lambda>v. walkList v body) vs
      | Inr _ \<Rightarrow> Inl (''range can't iterate over '' @ f))"
| "walkList dot [] = Inr []"
| "walkList dot (n # ns) =
     (case walk dot n of
        Inl err \<Rightarrow> Inl err
      | Inr s \<Rightarrow> (case walkList dot ns of Inl err \<Rightarrow> Inl err | Inr t \<Rightarrow> Inr (s @ t)))"

text \<open>\<open>t.Execute(b, e)\<close>: the text written to the buffer, or the error.\<close>

definition Execute :: "template \<Rightarrow> tvalue \<Rightarrow> go_error + string" where
  "Execute t data = walkList data (tmpl_Root t)"

text \<open>The values of the two struct types, field by field in the order of declaration.\<close>

definition attrValue :: "templAttr \<Rightarrow> tvalue" where
  "attrValue a =
     VStruct [(''Name'', VString (t_Name a)), (''JS'', VString (t_JS a)),
              (''Type'', VString (t_Type a))]"

definition elemValue :: "templElem \<Rightarrow> tvalue" where
  "elemValue e =
     VStruct [(''Elem'', VString (e_Elem e)), (''Name'', VString (e_Name e)),
              (''Props'', VString (e_Props e)), (''Upper'', VString (e_Upper e)),
              (''Attrs'', VSlice (map attrValue (e_Attrs e)))]"

text \<open>
  The two template constants, as \<open>template.Parse\<close> reads them: the text between the
  actions is kept byte for byte (\<open>TAB\<close> is the tab character, \<open>BQ\<close> the back quote).
\<close>

abbreviation TAB :: string where "TAB \<equiv> [CHR 0x09]"

abbreviation BQ :: string where "BQ \<equiv> [CHR 0x60]"

definition primaryTemplate :: "node list" where
  "primaryTemplate =
    [Text (''\<newline>'' @
           ''// Copyright (c) 2018 Paul Jolly <paul@myitcv.org.uk>, all rights reserved.\<newline>'' @
           ''// Use of this document is governed by a license found in the LICENSE document.\<newline>'' @
           ''\<newline>'' @
           ''package react\<newline>'' @
           ''\<newline>'' @
           ''// ''),
     Field ''Elem'',
     Text ('' is the React element definition corresponding to the HTML <''),
     Field ''Name'',
     Text (''> element.\<newline>'' @
           ''type ''),
     Field ''Elem'',
     Text ('' struct {\<newline>'' @
           TAB @ ''Element\<newline>'' @
           ''}\<newline>'' @
           ''\<newline>'' @
           ''// _''),
     Field ''Props'',
     Text ('' defines the properties for the <''),
     Field ''Name'',
     Text (''> element.\<newline>'' @
           ''type _''),
     Field ''Props'',
     Text ('' struct {\<newline>'' @
           TAB @ ''*BasicHTMLElement\<newline>'' @
           ''\<newline>'' @
           TAB),
     Range ''Attrs''
       [Field ''Name'',
        Text ('' ''),
        Field ''Type'',
        Text ('' '' @ BQ @ ''js:\"''),
        Field ''JS'',
        Text (''\"'' @ BQ @ ''\<newline>'' @
              TAB)],
     Text (''\<newline>'' @
           ''}\<newline>'' @
           ''\<newline>'' @
           ''// A creates a new instance of a <''),
     Field ''Name'',
     Text (''> element with the provided props and children.\<newline>'' @
           ''func ''),
     Field ''Upper'',
     Text (''(props *''),
     Field ''Props'',
     Text ('', children ...Element) *''),
     Field ''Elem'',
     Text ('' {\<newline>'' @
           TAB @ ''rProps := &_''),
     Field ''Props'',
     Text (''{\<newline>'' @
           TAB @ TAB @ ''BasicHTMLElement: newBasicHTMLElement(),\<newline>'' @
           TAB @ ''}\<newline>'' @
           ''\<newline>'' @
           TAB @ ''if props != nil {\<newline>'' @
           TAB @ TAB @ ''props.assign(rProps)\<newline>'' @
           TAB @ ''}\<newline>'' @
           ''\<newline>'' @
           TAB @ ''return &''),
     Field ''Elem'',
     Text (''{\<newline>'' @
           TAB @ TAB @ ''Element: createElement(\"''),
     Field ''Name'',
     Text (''\", rProps, children...),\<newline>'' @
           TAB @ ''}\<newline>'' @
           ''}\<newline>'')]"

definition testTemplate :: "node list" where
  "testTemplate =
    [Text (''\<newline>'' @
           ''// +build js\<newline>'' @
           ''\<newline>'' @
           ''package react_test\<newline>'' @
           ''\<newline>'' @
           ''import (\<newline>'' @
           TAB @ ''\"testing\"\<newline>'' @
           ''\<newline>'' @
           TAB @ ''\"honnef.co/go/js/dom\"\<newline>'' @
           ''\<newline>'' @
           TAB @ ''\"myitcv.io/react\"\<newline>'' @
           TAB @ ''\"myitcv.io/react/testutils\"\<newline>'' @
           '')\<newline>'' @
           ''\<newline>'' @
           ''func Test''),
     Field ''Elem'',
     Text (''(t *testing.T) {\<newline>'' @
           TAB @ ''class := \"test\"\<newline>'' @
           ''\<newline>'' @
           TAB @ ''x := testutils.Wrapper(react.''),
     Field ''Upper'',
     Text (''(&react.''),
     Field ''Props'',
     Text (''{ClassName: class}))\<newline>'' @
           TAB @ ''cont := testutils.RenderIntoDocument(x)\<newline>'' @
           ''\<newline>'' @
           TAB @ ''el := testutils.FindRenderedDOMComponentWithClass(cont, class)\<newline>'' @
           ''\<newline>'' @
           TAB @ ''if _, ok := el.(*dom.HTMLAnchorElement); !ok {\<newline>'' @
           TAB @ TAB @ ''t.Fatal(\"Failed to find <''),
     Field ''Name'',
     Text (''> element\")\<newline>'' @
           TAB @ ''}\<newline>'' @
           ''}\<newline>'')]"

definition primary :: template where
  "primary = \<lparr>tmpl_name = ''primary'', tmpl_Root = primaryTemplate\<rparr>"

definition test :: template where
  "test = \<lparr>tmpl_name = ''test'', tmpl_Root = testTemplate\<rparr>"

subsection \<open>\<open>filepath.Join\<close> (Unix: the separator is the slash, no volume names)\<close>

text \<open>
  \<open>filepath.Clean\<close> reads the path from left to right and writes the cleaned path to a
  buffer \<open>out\<close>; \<open>dotdot\<close> is the length of the buffer's part that a \<open>..\<close> element must
  not remove. The loop below takes the part of the path not yet read.

  Going back over the last element: \<open>out.w--\<close>, and then on while
  \<open>out.w > dotdot\<close> and the byte at \<open>out.w\<close> is no separator.
\<close>

function backtrack :: "string \<Rightarrow> nat \<Rightarrow> nat \<Rightarrow> nat" where
  "backtrack out dotdot w =
     (if w > dotdot \<and> out ! w \<noteq> CHR ''/'' then backtrack out dotdot (w - 1) else w)"
  by pat_completeness auto
termination
  by (relation "measure (\<lambda>(out, dotdot, w). w)") auto

declare backtrack.simps [simp del]

text \<open>
  One round of the loop of \<open>Clean\<close>, on the unread path \<open>c # cs\<close>: the four cases of
  its \<open>switch\<close>, giving the path still to read, the buffer and \<open>dotdot\<close>.
\<close>

definition Clean_step ::
  "bool \<Rightarrow> char \<Rightarrow> string \<Rightarrow> string \<Rightarrow> nat \<Rightarrow> string \<times> string \<times> nat" where
  "Clean_step rooted c cs out dotdot =
     (if c = CHR ''/'' then
        \<comment> \<open>empty path element\<close>
        (cs, out, dotdot)
      else if c = CHR ''.'' \<and> (cs = [] \<or> hd cs = CHR ''/'') then
        \<comment> \<open>. element\<close>
        (cs, out, dotdot)
      else if c = CHR ''.'' \<and> hd cs = CHR ''.'' \<and> (tl cs = [] \<or> hd (tl cs) = CHR ''/'') then
        \<comment> \<open>.. element: remove to last separator\<close>
        (if length out > dotdot then
           (tl cs, take (backtrack out dotdot (length out - 1)) out, dotdot)
         else if \<not> rooted then
           (let out' = (if length out > 0 then out @ ''/'' else out) @ ''..''
            in (tl cs, out', length out'))
         else (tl cs, out, dotdot))
      else
        \<comment> \<open>real path element: add slash if needed, copy element\<close>
        (let out' = (if rooted \<and> length out \<noteq> 1 \<or> \<not> rooted \<and> length out \<noteq> 0
                     then out @ ''/'' else out)
         in (dropWhile (\<lambda>x. x \<noteq> CHR ''/'') (c # cs),
             out' @ takeWhile (\<lambda>x. x \<noteq> CHR ''/'') (c # cs), dotdot)))"

lemma Clean_step_shorter: "length (fst (Clean_step rooted c cs out dotdot)) \<le> length cs"
proof -
  have "length (dropWhile (\<lambda>x. x \<noteq> CHR ''/'') cs) \<le> length cs"
    by (rule length_dropWhile_le)
  moreover have "length (tl cs) \<le> length cs" by simp
  ultimately show ?thesis
    unfolding Clean_step_def Let_def by (simp del: length_tl)
qed

function Clean_loop :: "bool \<Rightarrow> string \<Rightarrow> string \<Rightarrow> nat \<Rightarrow> string" where
  "Clean_loop rooted [] out dotdot = out"
| "Clean_loop rooted (c # cs) out dotdot =
     (case Clean_step rooted c cs out dotdot of
        (path', out', dotdot') \<Rightarrow> Clean_loop rooted path' out' dotdot')"
  by pat_completeness auto
termination
  by (relation "measure (\<lambda>(rooted, path, out, dotdot). length path)")
    (auto simp: case_prod_beta le_imp_less_Suc Clean_step_shorter)

definition filepath_Clean :: "string \<Rightarrow> string" where
  "filepath_Clean path =
     (if path = [] then ''.''
      else
        (let rooted = (hd path = CHR ''/'');
             out = (if rooted then Clean_loop rooted (tl path) ''/'' 1
                    else Clean_loop rooted path [] 0)
         in if out = [] then ''.'' else out))"

text \<open>
  \<open>filepath.Join\<close>: the elements from the first non-empty one on, joined by the
  separator and cleaned; the empty string when every element is empty.
\<close>

fun filepath_Join :: "string list \<Rightarrow> string" where
  "filepath_Join [] = []"
| "filepath_Join (e # es) =
     (if e \<noteq> [] then filepath_Clean (strings_Join (e # es) ''/'') else filepath_Join es)"

subsection \<open>The environment, and \<open>executeTemplate\<close>\<close>

text \<open>
  What the program does to the world is the sequence of its calls of \<open>os.Create\<close> and
  of \<open>Write\<close> on the created file, kept as a trace: a call is in the trace whether it
  fails or not, and a failed call is the last one, since the program panics on it.
  The environment holds the flag \<open>-o\<close>, the formatter \<open>format.Source\<close> (a function of
  the text), and for each of the two calls whether it fails, which may depend on all
  the calls made before. The file that \<open>os.Create\<close> returns is known by its path.
\<close>

datatype event = Create string | Write string string

record env =
  outputDirectory :: string
  format_Source :: "string \<Rightarrow> go_error + string"
  os_Create :: "event list \<Rightarrow> string \<Rightarrow> go_error option"
  file_Write :: "event list \<Rightarrow> string \<Rightarrow> string \<Rightarrow> go_error option"

definition executeTemplate ::
  "env \<Rightarrow> string \<Rightarrow> template \<Rightarrow> templElem \<Rightarrow> event list \<Rightarrow> (panic + unit) \<times> event list" where
  "executeTemplate env n t e tr =
     (case Execute t (elemValue e) of
        Inl err \<Rightarrow> (Inl (Panic err), tr)
      | Inr b \<Rightarrow>
          (case format_Source env b of
             Inl err \<Rightarrow> (Inl (Panic err), tr)
           | Inr formatted \<Rightarrow>
               (let f = filepath_Join [outputDirectory env, n] in
                case os_Create env tr f of
                  Some err \<Rightarrow> (Inl (Panic err), tr @ [Create f])
                | None \<Rightarrow>
                    (case file_Write env (tr @ [Create f]) f formatted of
                       Some err \<Rightarrow> (Inl (Panic err), tr @ [Create f, Write f formatted])
                     | None \<Rightarrow> (Inr (), tr @ [Create f, Write f formatted])))))"

subsection \<open>The loop of \<open>main\<close>\<close>

text \<open>One round of the loop, for the entry \<open>(k, v)\<close>.\<close>

definition main_body :: "env \<Rightarrow> string \<Rightarrow> Desc \<Rightarrow> event list \<Rightarrow> (panic + unit) \<times> event list" where
  "main_body env k v tr =
     (case main_elem k v of
        Inl p \<Rightarrow> (Inl p, tr)
      | Inr e \<Rightarrow>
          (case executeTemplate env (k @ ''_elem.go'') primary e tr of
             (Inl p, tr') \<Rightarrow> (Inl p, tr')
           | (Inr _, tr') \<Rightarrow> executeTemplate env (k @ ''_elem_test.go'') test e tr'))"

text \<open>
  \<open>for k, v := range elements\<close> visits the entries of a Go map in an order that the
  language leaves open and that changes from run to run. The order of a run is
  therefore an argument: a list of the map's entries.
\<close>

fun main_loop :: "env \<Rightarrow> (string \<times> Desc) list \<Rightarrow> event list \<Rightarrow> (panic + unit) \<times> event list" where
  "main_loop env [] tr = (Inr (), tr)"
| "main_loop env ((k, v) # rest) tr =
     (case main_body env k v tr of
        (Inl p, tr') \<Rightarrow> (Inl p, tr')
      | (Inr _, tr') \<Rightarrow> main_loop env rest tr')"

text \<open>
  A run starts with no call made. Before the loop, \<open>main\<close> reads the flags and parses
  the two template constants, which are the trees \<open>primary\<close> and \<open>test\<close>.
\<close>

definition main :: "env \<Rightarrow> (string \<times> Desc) list \<Rightarrow> (panic + unit) \<times> event list" where
  "main env order = main_loop env order []"

section \<open>Values and notions that the statements use\<close>

text \<open>
  The zero values of the two struct types: a composite literal of the source, such as
  \<open>{Name: "open", Type: "bool"}\<close>, is the zero value with the named fields set.
\<close>

definition Attr0 :: Attr where
  "Attr0 = \<lparr>a_Name = [], a_Override = [], a_Type = []\<rparr>"

definition Desc0 :: Desc where
  "Desc0 = \<lparr>d_Override = [], d_Attributes = []\<rparr>"

text \<open>
  The table \<open>elements\<close> of the source, in the order of the literal. It is a Go map:
  the keys of the literal are distinct, and \<open>range\<close> may visit them in any order.
\<close>

definition elements :: "(string \<times> Desc) list" where
  "elements =
    [(''abbr'', Desc0),
     (''acronym'', Desc0),
     (''address'', Desc0),
     (''applet'', Desc0\<lparr>d_Attributes := [
         Attr0\<lparr>a_Name := ''align''\<rparr>,
         Attr0\<lparr>a_Name := ''alt''\<rparr>,
         Attr0\<lparr>a_Name := ''archive''\<rparr>,
         Attr0\<lparr>a_Name := ''code''\<rparr>,
         Attr0\<lparr>a_Name := ''codebase''\<rparr>,
         Attr0\<lparr>a_Name := ''datafld'', a_Override := ''DataFld''\<rparr>,
         Attr0\<lparr>a_Name := ''datasrc'', a_Override := ''DataSrc''\<rparr>,
         Attr0\<lparr>a_Name := ''height''\<rparr>,
         Attr0\<lparr>a_Name := ''hspace'', a_Override := ''HSpace''\<rparr>,
         Attr0\<lparr>a_Name := ''mayscript'', a_Override := ''MayScript''\<rparr>,
         Attr0\<lparr>a_Name := ''name''\<rparr>,
         Attr0\<lparr>a_Name := ''object''\<rparr>,
         Attr0\<lparr>a_Name := ''src''\<rparr>,
         Attr0\<lparr>a_Name := ''vspace'', a_Override := ''VSpace''\<rparr>,
         Attr0\<lparr>a_Name := ''width''\<rparr>]\<rparr>),
     (''area'', Desc0\<lparr>d_Attributes := [
         Attr0\<lparr>a_Name := ''alt''\<rparr>,
         Attr0\<lparr>a_Name := ''coords''\<rparr>,
         Attr0\<lparr>a_Name := ''download''\<rparr>,
         Attr0\<lparr>a_Name := ''href''\<rparr>,
         Attr0\<lparr>a_Name := ''hreflang'', a_Override := ''HrefLang''\<rparr>,
         Attr0\<lparr>a_Name := ''media''\<rparr>,
         Attr0\<lparr>a_Name := ''referrerpolicy'', a_Override := ''ReferrerPolicy''\<rparr>,
         Attr0\<lparr>a_Name := ''rel''\<rparr>,
         Attr0\<lparr>a_Name := ''shape''\<rparr>,
         Attr0\<lparr>a_Name := ''target''\<rparr>]\<rparr>),
     (''article'', Desc0),
     (''aside'', Desc0),
     (''audio'', Desc0\<lparr>d_Attributes := [
         Attr0\<lparr>a_Name := ''autoplay'', a_Override := ''AutoPlay''\<rparr>,
         Attr0\<lparr>a_Name := ''buffered''\<rparr>,
         Attr0\<lparr>a_Name := ''controls''\<rparr>,
         Attr0\<lparr>a_Name := ''loop''\<rparr>,
         Attr0\<lparr>a_Name := ''mozCurrentSampleOffset'', a_Override := ''MozCurrentSampleOffset''\<rparr>,
         Attr0\<lparr>a_Name := ''muted''\<rparr>,
         Attr0\<lparr>a_Name := ''played''\<rparr>,
         Attr0\<lparr>a_Name := ''preload''\<rparr>,
         Attr0\<lparr>a_Name := ''src''\<rparr>,
         Attr0\<lparr>a_Name := ''volume''\<rparr>]\<rparr>),
     (''b'', Desc0),
     (''base'', Desc0\<lparr>d_Attributes := [
         Attr0\<lparr>a_Name := ''href''\<rparr>,
         Attr0\<lparr>a_Name := ''target''\<rparr>]\<rparr>),
     (''basefont'', Desc0\<lparr>d_Attributes := [
         Attr0\<lparr>a_Name := ''color''\<rparr>,
         Attr0\<lparr>a_Name := ''face''\<rparr>,
         Attr0\<lparr>a_Name := ''size''\<rparr>],
       d_Override := ''BaseFont''\<rparr>),
     (''bdi'', Desc0),
     (''bdo'', Desc0),
     (''blockquote'', Desc0\<lparr>d_Attributes := [
         Attr0\<lparr>a_Name := ''cite''\<rparr>],
       d_Override := ''BlockQuote''\<rparr>),
     (''body'', Desc0\<lparr>d_Attributes := [
         Attr0\<lparr>a_Name := ''onafterprint'', a_Override := ''OnAfterPrint''\<rparr>,
         Attr0\<lparr>a_Name := ''onbeforeprint'', a_Override := ''OnBeforePrint''\<rparr>,
         Attr0\<lparr>a_Name := ''onbeforeunload'', a_Override := ''OnBeforeUnload''\<rparr>,
         Attr0\<lparr>a_Name := ''onblur'', a_Override := ''OnBlur''\<rparr>,
         Attr0\<lparr>a_Name := ''onerror'', a_Override := ''OnError''\<rparr>,
         Attr0\<lparr>a_Name := ''onfocus'', a_Override := ''OnFocus''\<rparr>,
         Attr0\<lparr>a_Name := ''onhashchange'', a_Override := ''OnHashChange''\<rparr>,
         Attr0\<lparr>a_Name := ''onlanguagechange'', a_Override := ''OnLanguageChange''\<rparr>,
         Attr0\<lparr>a_Name := ''onload'', a_Override := ''OnLoad''\<rparr>,
         Attr0\<lparr>a_Name := ''onmessage'', a_Override := ''OnMessage''\<rparr>,
         Attr0\<lparr>a_Name := ''onoffline'', a_Override := ''OnOffline''\<rparr>,
         Attr0\<lparr>a_Name := ''ononline'', a_Override := ''OnOnline''\<rparr>,
         Attr0\<lparr>a_Name := ''onpopstate'', a_Override := ''OnPopState''\<rparr>,
         Attr0\<lparr>a_Name := ''onredo'', a_Override := ''OnRedo''\<rparr>,
         Attr0\<lparr>a_Name := ''onresize'', a_Override := ''OnResize''\<rparr>,
         Attr0\<lparr>a_Name := ''onstorage'', a_Override := ''OnStorage''\<rparr>,
         Attr0\<lparr>a_Name := ''onundo'', a_Override := ''OnUndo''\<rparr>,
         Attr0\<lparr>a_Name := ''onunload'', a_Override := ''OnUnload''\<rparr>]\<rparr>),
     (''canvas'', Desc0\<lparr>d_Attributes := [
         Attr0\<lparr>a_Name := ''height''\<rparr>,
         Attr0\<lparr>a_Name := ''width''\<rparr>]\<rparr>),
     (''caption'', Desc0),
     (''cite'', Desc0),
     (''col'', Desc0\<lparr>d_Attributes := [
         Attr0\<lparr>a_Name := ''bgcolor'', a_Override := ''BGColor''\<rparr>,
         Attr0\<lparr>a_Name := ''span''\<rparr>]\<rparr>),
     (''colgroup'', Desc0\<lparr>d_Attributes := [
         Attr0\<lparr>a_Name := ''bgcolor'', a_Override := ''BGColor''\<rparr>,
         Attr0\<lparr>a_Name := ''span''\<rparr>]\<rparr>),
     (''data'', Desc0\<lparr>d_Attributes := [
         Attr0\<lparr>a_Name := ''value''\<rparr>]\<rparr>),
     (''datalist'', Desc0\<lparr>d_Override := ''DataList''\<rparr>),
     (''dd'', Desc0),
     (''del'', Desc0\<lparr>d_Attributes := [
         Attr0\<lparr>a_Name := ''cite''\<rparr>,
         Attr0\<lparr>a_Name := ''datetime'', a_Override := ''DateTime''\<rparr>]\<rparr>),
     (''details'', Desc0\<lparr>d_Attributes := [
         Attr0\<lparr>a_Name := ''open'', a_Type := ''bool''\<rparr>]\<rparr>),
     (''dfn'', Desc0),
     (''dialog'', Desc0\<lparr>d_Attributes := [
         Attr0\<lparr>a_Name := ''open'', a_Type := ''bool''\<rparr>]\<rparr>),
     (''dl'', Desc0),
     (''dt'', Desc0),
     (''em'', Desc0),
     (''embed'', Desc0\<lparr>d_Attributes := [
         Attr0\<lparr>a_Name := ''height''\<rparr>,
         Attr0\<lparr>a_Name := ''src''\<rparr>,
         Attr0\<lparr>a_Name := ''type''\<rparr>,
         Attr0\<lparr>a_Name := ''width''\<rparr>]\<rparr>),
     (''fieldset'', Desc0\<lparr>d_Attributes := [
         Attr0\<lparr>a_Name := ''disabled'', a_Type := ''bool''\<rparr>,
         Attr0\<lparr>a_Name := ''form''\<rparr>,
         Attr0\<lparr>a_Name := ''name''\<rparr>],
       d_Override := ''FieldSet''\<rparr>),
     (''figcaption'', Desc0\<lparr>d_Override := ''FigCaption''\<rparr>),
     (''figure'', Desc0),
     (''h2'', Desc0),
     (''h5'', Desc0),
     (''h6'', Desc0),
     (''head'', Desc0),
     (''header'', Desc0),
     (''hgroup'', Desc0\<lparr>d_Override := ''HGroup''\<rparr>),
     (''html'', Desc0\<lparr>d_Attributes := [
         Attr0\<lparr>a_Name := ''xmlns'', a_Override := ''XMLNS''\<rparr>],
       d_Override := ''HTML''\<rparr>),
     (''ins'', Desc0\<lparr>d_Attributes := [
         Attr0\<lparr>a_Name := ''cite''\<rparr>,
         Attr0\<lparr>a_Name := ''datetime'', a_Override := ''DateTime''\<rparr>]\<rparr>),
     (''kbd'', Desc0),
     (''legend'', Desc0),
     (''link'', Desc0\<lparr>d_Attributes := [
         Attr0\<lparr>a_Name := ''as''\<rparr>,
         Attr0\<lparr>a_Name := ''crossorigin'', a_Override := ''CrossOrigin''\<rparr>,
         Attr0\<lparr>a_Name := ''disabled'', a_Type := ''bool''\<rparr>,
         Attr0\<lparr>a_Name := ''href''\<rparr>,
         Attr0\<lparr>a_Name := ''hreflang'', a_Override := ''HrefLang''\<rparr>,
         Attr0\<lparr>a_Name := ''integrity''\<rparr>,
         Attr0\<lparr>a_Name := ''media''\<rparr>,
         Attr0\<lparr>a_Name := ''methods''\<rparr>,
         Attr0\<lparr>a_Name := ''prefetch''\<rparr>,
         Attr0\<lparr>a_Name := ''referrerpolicy'', a_Override := ''ReferrerPolicy''\<rparr>,
         Attr0\<lparr>a_Name := ''rel''\<rparr>,
         Attr0\<lparr>a_Name := ''sizes''\<rparr>,
         Attr0\<lparr>a_Name := ''target''\<rparr>,
         Attr0\<lparr>a_Name := ''title''\<rparr>,
         Attr0\<lparr>a_Name := ''type''\<rparr>]\<rparr>),
     (''main'', Desc0),
     (''map'', Desc0\<lparr>d_Attributes := [
         Attr0\<lparr>a_Name := ''name''\<rparr>]\<rparr>),
     (''mark'', Desc0),
     (''menu'', Desc0\<lparr>d_Attributes := [
         Attr0\<lparr>a_Name := ''type''\<rparr>]\<rparr>),
     (''meta'', Desc0\<lparr>d_Attributes := [
         Attr0\<lparr>a_Name := ''charset'', a_Override := ''CharSet''\<rparr>,
         Attr0\<lparr>a_Name := ''content''\<rparr>,
         Attr0\<lparr>a_Name := ''http-equiv'', a_Override := ''HTTPEquiv''\<rparr>,
         Attr0\<lparr>a_Name := ''name''\<rparr>]\<rparr>),
     (''meter'', Desc0\<lparr>d_Attributes := [
         Attr0\<lparr>a_Name := ''value'', a_Type := ''float64''\<rparr>,
         Attr0\<lparr>a_Name := ''min'', a_Type := ''float64''\<rparr>,
         Attr0\<lparr>a_Name := ''max'', a_Type := ''float64''\<rparr>,
         Attr0\<lparr>a_Name := ''low'', a_Type := ''float64''\<rparr>,
         Attr0\<lparr>a_Name := ''high'', a_Type := ''float64''\<rparr>,
         Attr0\<lparr>a_Name := ''optimum'', a_Type := ''float64''\<rparr>,
         Attr0\<lparr>a_Name := ''form''\<rparr>]\<rparr>),
     (''noscript'', Desc0\<lparr>d_Override := ''NoScript''\<rparr>),
     (''object'', Desc0\<lparr>d_Attributes := [
         Attr0\<lparr>a_Name := ''data''\<rparr>,
         Attr0\<lparr>a_Name := ''form''\<rparr>,
         Attr0\<lparr>a_Name := ''height''\<rparr>,
         Attr0\<lparr>a_Name := ''name''\<rparr>,
         Attr0\<lparr>a_Name := ''type''\<rparr>,
         Attr0\<lparr>a_Name := ''typemustmatch'', a_Override := ''TypeMustMatch''\<rparr>,
         Attr0\<lparr>a_Name := ''usemap'', a_Override := ''UseMap''\<rparr>,
         Attr0\<lparr>a_Name := ''width''\<rparr>]\<rparr>),
     (''ol'', Desc0\<lparr>d_Attributes := [
         Attr0\<lparr>a_Name := ''compact''\<rparr>,
         Attr0\<lparr>a_Name := ''reversed'', a_Type := ''bool''\<rparr>,
         Attr0\<lparr>a_Name := ''start''\<rparr>,
         Attr0\<lparr>a_Name := ''type''\<rparr>]\<rparr>),
     (''optgroup'', Desc0\<lparr>d_Attributes := [
         Attr0\<lparr>a_Name := ''disabled'', a_Type := ''bool''\<rparr>,
         Attr0\<lparr>a_Name := ''label''\<rparr>],
       d_Override := ''OptGroup''\<rparr>),
     (''output'', Desc0\<lparr>d_Attributes := [
         Attr0\<lparr>a_Name := ''for''\<rparr>,
         Attr0\<lparr>a_Name := ''form''\<rparr>,
         Attr0\<lparr>a_Name := ''name''\<rparr>]\<rparr>),
     (''param'', Desc0\<lparr>d_Attributes := [
         Attr0\<lparr>a_Name := ''name''\<rparr>,
         Attr0\<lparr>a_Name := ''value''\<rparr>]\<rparr>),
     (''picture'', Desc0),
     (''progress'', Desc0\<lparr>d_Attributes := [
         Attr0\<lparr>a_Name := ''max'', a_Type := ''float64''\<rparr>,
         Attr0\<lparr>a_Name := ''value'', a_Type := ''float64''\<rparr>]\<rparr>),
     (''q'', Desc0\<lparr>d_Attributes := [
         Attr0\<lparr>a_Name := ''cite''\<rparr>]\<rparr>),
     (''rp'', Desc0\<lparr>d_Override := ''RP''\<rparr>),
     (''rt'', Desc0\<lparr>d_Override := ''RT''\<rparr>),
     (''rtc'', Desc0\<lparr>d_Override := ''RTC''\<rparr>),
     (''ruby'', Desc0),
     (''s'', Desc0\<lparr>d_Override := ''Strike''\<rparr>),
     (''samp'', Desc0),
     (''script'', Desc0\<lparr>d_Attributes := [
         Attr0\<lparr>a_Name := ''async''\<rparr>,
         Attr0\<lparr>a_Name := ''crossorigin'', a_Override := ''CrossOrigin''\<rparr>,
         Attr0\<lparr>a_Name := ''defer''\<rparr>,
         Attr0\<lparr>a_Name := ''integrity''\<rparr>,
         Attr0\<lparr>a_Name := ''nomodule'', a_Override := ''NoModule''\<rparr>,
         Attr0\<lparr>a_Name := ''nonce''\<rparr>,
         Attr0\<lparr>a_Name := ''src''\<rparr>,
         Attr0\<lparr>a_Name := ''text''\<rparr>,
         Attr0\<lparr>a_Name := ''type''\<rparr>]\<rparr>),
     (''section'', Desc0),
     (''slot'', Desc0\<lparr>d_Attributes := [
         Attr0\<lparr>a_Name := ''name''\<rparr>]\<rparr>),
     (''small'', Desc0),
     (''source'', Desc0\<lparr>d_Attributes := [
         Attr0\<lparr>a_Name := ''sizes''\<rparr>,
         Attr0\<lparr>a_Name := ''src''\<rparr>,
         Attr0\<lparr>a_Name := ''srcset'', a_Override := ''SrcSet''\<rparr>,
         Attr0\<lparr>a_Name := ''type''\<rparr>,
         Attr0\<lparr>a_Name := ''media''\<rparr>]\<rparr>),
     (''strong'', Desc0),
     (''style'', Desc0\<lparr>d_Attributes := [
         Attr0\<lparr>a_Name := ''type''\<rparr>,
         Attr0\<lparr>a_Name := ''media''\<rparr>,
         Attr0\<lparr>a_Name := ''nonce''\<rparr>,
         Attr0\<lparr>a_Name := ''title''\<rparr>]\<rparr>),
     (''sub'', Desc0),
     (''tbody'', Desc0\<lparr>d_Attributes := [
         Attr0\<lparr>a_Name := ''bgcolor'', a_Override := ''BGColor''\<rparr>]\<rparr>),
     (''td'', Desc0\<lparr>d_Attributes := [
         Attr0\<lparr>a_Name := ''bgcolor'', a_Override := ''BGColor''\<rparr>,
         Attr0\<lparr>a_Name := ''colspan'', a_Override := ''ColSpan''\<rparr>,
         Attr0\<lparr>a_Name := ''headers''\<rparr>,
         Attr0\<lparr>a_Name := ''rowspan'', a_Override := ''RowSpan''\<rparr>]\<rparr>),
     (''template'', Desc0),
     (''tfoot'', Desc0\<lparr>d_Attributes := [
         Attr0\<lparr>a_Name := ''bgcolor'', a_Override := ''BGColor''\<rparr>]\<rparr>),
     (''th'', Desc0\<lparr>d_Attributes := [
         Attr0\<lparr>a_Name := ''abbr''\<rparr>,
         Attr0\<lparr>a_Name := ''bgcolor'', a_Override := ''BGColor''\<rparr>,
         Attr0\<lparr>a_Name := ''colspan'', a_Override := ''ColSpan''\<rparr>,
         Attr0\<lparr>a_Name := ''headers''\<rparr>,
         Attr0\<lparr>a_Name := ''rowspan'', a_Override := ''RowSpan''\<rparr>,
         Attr0\<lparr>a_Name := ''scope''\<rparr>]\<rparr>),
     (''thead'', Desc0\<lparr>d_Attributes := [
         Attr0\<lparr>a_Name := ''bgcolor'', a_Override := ''BGColor''\<rparr>]\<rparr>),
     (''time'', Desc0\<lparr>d_Attributes := [
         Attr0\<lparr>a_Name := ''datetime'', a_Override := ''DateTime''\<rparr>]\<rparr>),
     (''title'', Desc0),
     (''tr'', Desc0),
     (''track'', Desc0\<lparr>d_Attributes := [
         Attr0\<lparr>a_Name := ''default'', a_Type := ''bool''\<rparr>,
         Attr0\<lparr>a_Name := ''kind''\<rparr>,
         Attr0\<lparr>a_Name := ''label''\<rparr>,
         Attr0\<lparr>a_Name := ''src''\<rparr>,
         Attr0\<lparr>a_Name := ''srclang'', a_Override := ''SrcLang''\<rparr>]\<rparr>),
     (''u'', Desc0),
     (''var'', Desc0),
     (''video'', Desc0\<lparr>d_Attributes := [
         Attr0\<lparr>a_Name := ''autoplay''\<rparr>,
         Attr0\<lparr>a_Name := ''buffered''\<rparr>,
         Attr0\<lparr>a_Name := ''controls''\<rparr>,
         Attr0\<lparr>a_Name := ''crossorigin'', a_Override := ''CrossOrigin''\<rparr>,
         Attr0\<lparr>a_Name := ''height''\<rparr>,
         Attr0\<lparr>a_Name := ''loop''\<rparr>,
         Attr0\<lparr>a_Name := ''muted''\<rparr>,
         Attr0\<lparr>a_Name := ''played''\<rparr>,
         Attr0\<lparr>a_Name := ''preload''\<rparr>,
         Attr0\<lparr>a_Name := ''poster''\<rparr>,
         Attr0\<lparr>a_Name := ''src''\<rparr>,
         Attr0\<lparr>a_Name := ''width''\<rparr>,
         Attr0\<lparr>a_Name := ''playsinline'', a_Override := ''PlaysInline''\<rparr>]\<rparr>),
     (''wbr'', Desc0)]"

text \<open>
  A string with its first byte in upper case, when that byte is an ASCII lower-case
  letter, and the rest unchanged; \<open>ascii\<close> says that a byte is below 0x80.
\<close>

definition capitalize :: "string \<Rightarrow> string" where
  "capitalize s =
     (case s of
        [] \<Rightarrow> []
      | c # cs \<Rightarrow>
          (if 0x61 \<le> (of_char c :: nat) \<and> (of_char c :: nat) \<le> 0x7A
           then char_of ((of_char c :: nat) - 32) else c) # cs)"

definition ascii :: "char \<Rightarrow> bool" where
  "ascii c = ((of_char c :: nat) < 0x80)"

text \<open>Some entries of the table by name.\<close>

definition blockquote :: Desc where
  "blockquote = Desc0\<lparr>d_Attributes := [Attr0\<lparr>a_Name := ''cite''\<rparr>], d_Override := ''BlockQuote''\<rparr>"

definition audio :: Desc where
  "audio = Desc0\<lparr>d_Attributes := [
      Attr0\<lparr>a_Name := ''autoplay'', a_Override := ''AutoPlay''\<rparr>,
      Attr0\<lparr>a_Name := ''buffered''\<rparr>,
      Attr0\<lparr>a_Name := ''controls''\<rparr>,
      Attr0\<lparr>a_Name := ''loop''\<rparr>,
      Attr0\<lparr>a_Name := ''mozCurrentSampleOffset'', a_Override := ''MozCurrentSampleOffset''\<rparr>,
      Attr0\<lparr>a_Name := ''muted''\<rparr>,
      Attr0\<lparr>a_Name := ''played''\<rparr>,
      Attr0\<lparr>a_Name := ''preload''\<rparr>,
      Attr0\<lparr>a_Name := ''src''\<rparr>,
      Attr0\<lparr>a_Name := ''volume''\<rparr>]\<rparr>"

definition col :: Desc where
  "col = Desc0\<lparr>d_Attributes := [
      Attr0\<lparr>a_Name := ''bgcolor'', a_Override := ''BGColor''\<rparr>,
      Attr0\<lparr>a_Name := ''span''\<rparr>]\<rparr>"

definition details :: Desc where
  "details = Desc0\<lparr>d_Attributes := [Attr0\<lparr>a_Name := ''open'', a_Type := ''bool''\<rparr>]\<rparr>"

definition meter :: Desc where
  "meter = Desc0\<lparr>d_Attributes := [
      Attr0\<lparr>a_Name := ''value'', a_Type := ''float64''\<rparr>,
      Attr0\<lparr>a_Name := ''min'', a_Type := ''float64''\<rparr>,
      Attr0\<lparr>a_Name := ''max'', a_Type := ''float64''\<rparr>,
      Attr0\<lparr>a_Name := ''low'', a_Type := ''float64''\<rparr>,
      Attr0\<lparr>a_Name := ''high'', a_Type := ''float64''\<rparr>,
      Attr0\<lparr>a_Name := ''optimum'', a_Type := ''float64''\<rparr>,
      Attr0\<lparr>a_Name := ''form''\<rparr>]\<rparr>"

text \<open>An entry with two attributes that get the same field name \<open>Src\<close>.\<close>

definition twice_Src :: Desc where
  "twice_Src = Desc0\<lparr>d_Attributes := [
      Attr0\<lparr>a_Name := ''src''\<rparr>,
      Attr0\<lparr>a_Name := ''srcset'', a_Override := ''Src''\<rparr>]\<rparr>"


definition writes :: "event list \<Rightarrow> (string \<times> string) list" where
  "writes tr = concat (map (\<lambda>ev. case ev of Create f \<Rightarrow> [] | Write f b \<Rightarrow> [(f, b)]) tr)"



text \<open>
  Environments for the examples. In \<open>env_plain\<close> no call fails and the formatter
  returns every text as it is; it stands for a formatter that accepts the text.
  In \<open>env_reject\<close> the formatter rejects the text, as \<open>format.Source\<close> rejects a text
  that is not Go syntax, with a message of the kind it gives: a position in the text
  and what the parser expected there. In \<open>env_denied\<close> the file \<open>u_elem.go\<close> cannot be
  created.
\<close>

definition env_plain :: env where
  "env_plain = \<lparr>outputDirectory = ''.'', format_Source = Inr,
      os_Create = (\<lambda>tr f. None), file_Write = (\<lambda>tr f b. None)\<rparr>"

definition env_reject :: env where
  "env_reject = env_plain\<lparr>format_Source := (\<lambda>b. Inl ''8:9: expected type, found -'')\<rparr>"

definition env_denied :: env where
  "env_denied = env_plain\<lparr>os_Create :=
     (\<lambda>tr f. if f = ''u_elem.go'' then Some ''open u_elem.go: permission denied'' else None)\<rparr>"

text \<open>
  The error \<open>err\<close> is what a step of \<open>executeTemplate\<close> returns: executing the template,
  the formatter, \<open>os.Create\<close> or \<open>Write\<close>, each reached when the steps before it have
  returned without one.
\<close>

definition step_error ::
  "env \<Rightarrow> string \<Rightarrow> template \<Rightarrow> templElem \<Rightarrow> event list \<Rightarrow> go_error \<Rightarrow> bool" where
  "step_error env n t e tr err =
     (case Execute t (elemValue e) of
        Inl x \<Rightarrow> x = err
      | Inr b \<Rightarrow>
          (case format_Source env b of
             Inl x \<Rightarrow> x = err
           | Inr formatted \<Rightarrow>
               (let f = filepath_Join [outputDirectory env, n] in
                case os_Create env tr f of
                  Some x \<Rightarrow> x = err
                | None \<Rightarrow> file_Write env (tr @ [Create f]) f formatted = Some err)))"



section \<open>Name derivation\<close>

subsection \<open>The table of the source\<close>

lemma elements_distinct: "distinct (map fst elements)"
  by code_simp

lemma elements_entries:
  "map_of elements ''blockquote'' = Some blockquote"
  "map_of elements ''audio'' = Some audio"
  "map_of elements ''col'' = Some col"
  "map_of elements ''details'' = Some details"
  "map_of elements ''meter'' = Some meter"
  "map_of elements ''b'' = Some Desc0"
  "map_of elements ''u'' = Some Desc0"
  by code_simp+

text \<open>
  Every key and every attribute name of the table starts with an ASCII byte, no key
  has a separator, and the derivation returns for every entry.
\<close>

lemma elements_names:
  "list_all (\<lambda>(k, v). k \<noteq> [] \<and> ascii (hd k) \<and> CHR ''/'' \<notin> set k \<and>
      list_all (\<lambda>a. a_Name a \<noteq> [] \<and> ascii (hd (a_Name a))) (d_Attributes v)) elements"
  by code_simp

lemma elements_derive: "list_all (\<lambda>(k, v). \<not> isl (main_elem k v)) elements"
  by code_simp

subsection \<open>The derived names\<close>

lemma ToUpper_of_byte_ascii:
  "ascii b \<Longrightarrow> ToUpper_of_byte b @ rest = capitalize (b # rest)"
  by (auto simp add: ascii_def ToUpper_of_byte_def utf8_EncodeRune_def unicode_ToUpper_def
      capitalize_def)

lemma main_attrs_Inr:
  "main_attrs as acc = Inr rs \<Longrightarrow>
     \<exists>ts. rs = acc @ ts \<and> list_all2 (\<lambda>a t. main_attr a = Inr t) as ts"
proof (induction as arbitrary: acc)
  case Nil
  then show ?case by simp
next
  case (Cons a as)
  then obtain ta where ta: "main_attr a = Inr ta" and rest: "main_attrs as (acc @ [ta]) = Inr rs"
    by (auto split: sum.splits)
  from Cons.IH [OF rest] obtain ts where "rs = (acc @ [ta]) @ ts"
    and "list_all2 (\<lambda>a t. main_attr a = Inr t) as ts" by blast
  with ta show ?case by (intro exI [of _ "ta # ts"]) simp
qed

lemma main_elem_attrs:
  "main_elem k v = Inr e \<Longrightarrow> list_all2 (\<lambda>a t. main_attr a = Inr t) (d_Attributes v) (e_Attrs e)"
  by (auto simp: main_elem_def split: sum.splits dest!: main_attrs_Inr)

lemma main_elem_upper:
  "main_elem k v = Inr e \<Longrightarrow> main_upper k v = Inr (e_Upper e)"
  by (auto simp: main_elem_def split: sum.splits)

lemma main_attr_Type:
  "main_attr a = Inr t \<Longrightarrow> t_Type t = (if a_Type a = [] then ''string'' else a_Type a)"
  by (auto simp: main_attr_def Let_def split: sum.splits if_splits list.splits)

lemma main_attr_JS: "main_attr a = Inr t \<Longrightarrow> t_JS t = a_Name a"
  by (auto simp: main_attr_def Let_def split: sum.splits if_splits list.splits)



text \<open>
  Claim C1, as amended. When the derivation of an entry returns, the canonical
  identifier \<open>Upper\<close> is the override of the entry when that is not empty; with an
  empty override and a key whose first byte is ASCII, it is the key with its first
  byte in upper case and the rest unchanged.
\<close>

theorem canonical_identifier:
  assumes "main_elem k v = Inr e"
  shows "(d_Override v \<noteq> [] \<longrightarrow> e_Upper e = d_Override v) \<and>
         (d_Override v = [] \<and> ascii (hd k) \<longrightarrow> e_Upper e = capitalize k)"
proof -
  from assms have u: "main_upper k v = Inr (e_Upper e)" by (rule main_elem_upper)
  show ?thesis
  proof (cases k)
    case Nil
    with u show ?thesis by (auto simp: main_upper_def split: if_splits)
  next
    case (Cons b rest)
    with u show ?thesis
      by (auto simp: main_upper_def ToUpper_of_byte_ascii split: if_splits)
  qed
qed

theorem canonical_identifier_witness:
  "main_elem ''blockquote'' blockquote =
     Inr \<lparr>e_Elem = ''BlockQuoteElem'', e_Name = ''blockquote'', e_Props = ''BlockQuoteProps'',
          e_Upper = ''BlockQuote'',
          e_Attrs = [\<lparr>t_Name = ''Cite'', t_JS = ''cite'', t_Type = ''string''\<rparr>]\<rparr> \<and>
   d_Override blockquote \<noteq> [] \<and>
   main_elem ''canvas'' Desc0 =
     Inr \<lparr>e_Elem = ''CanvasElem'', e_Name = ''canvas'', e_Props = ''CanvasProps'',
          e_Upper = ''Canvas'', e_Attrs = []\<rparr> \<and>
   d_Override Desc0 = [] \<and> ascii (hd ''canvas'') \<and> capitalize ''canvas'' = ''Canvas''"
proof -
  have b: "main_elem ''blockquote'' blockquote =
     Inr \<lparr>e_Elem = ''BlockQuoteElem'', e_Name = ''blockquote'', e_Props = ''BlockQuoteProps'',
          e_Upper = ''BlockQuote'',
          e_Attrs = [\<lparr>t_Name = ''Cite'', t_JS = ''cite'', t_Type = ''string''\<rparr>]\<rparr>"
    by code_simp
  have c: "main_elem ''canvas'' Desc0 =
     Inr \<lparr>e_Elem = ''CanvasElem'', e_Name = ''canvas'', e_Props = ''CanvasProps'',
          e_Upper = ''Canvas'', e_Attrs = []\<rparr>"
    by code_simp
  have h: "d_Override blockquote \<noteq> []" "d_Override Desc0 = []" "ascii (hd ''canvas'')"
    by code_simp+
  from canonical_identifier [OF b] canonical_identifier [OF c] h b c show ?thesis
    by simp
qed

text \<open>
  As C1 is stated, for every key, it fails: the key of the two bytes C3 A9 (U+00E9 in UTF-8)
  gives the three bytes C3 83 A9. The code converts the first byte of the key, not its
  first character, to a string, which for a byte from 0x80 on has two bytes. The
  result is neither the key with a byte replaced by its upper case, nor U+00C9 in
  UTF-8, and the rest of the key is not what follows its first byte.
\<close>

theorem canonical_identifier_counterexample:
  "main_elem [CHR 0xC3, CHR 0xA9] Desc0 =
     Inr \<lparr>e_Elem = [CHR 0xC3, CHR 0x83, CHR 0xA9] @ ''Elem'', e_Name = [CHR 0xC3, CHR 0xA9],
          e_Props = [CHR 0xC3, CHR 0x83, CHR 0xA9] @ ''Props'',
          e_Upper = [CHR 0xC3, CHR 0x83, CHR 0xA9], e_Attrs = []\<rparr> \<and>
   d_Override Desc0 = [] \<and>
   [CHR 0xC3, CHR 0x83, CHR 0xA9] \<noteq> capitalize [CHR 0xC3, CHR 0xA9] \<and>
   [CHR 0xC3, CHR 0x83, CHR 0xA9] \<noteq> [CHR 0xC3, CHR 0x89] \<and>
   tl [CHR 0xC3, CHR 0x83, CHR 0xA9] \<noteq> tl [CHR 0xC3, CHR 0xA9]"
  by code_simp

lemma list_all2_map_eq:
  "list_all2 (\<lambda>a t. f t = g a) xs ys \<Longrightarrow> map f ys = map g xs"
  by (induction rule: list_all2_induct) auto




text \<open>
  Claim C5. The field type of every attribute is \<open>string\<close> when the attribute's type
  is empty, and the attribute's type as it is otherwise.
\<close>

theorem field_type:
  assumes "main_elem k v = Inr e"
  shows "map t_Type (e_Attrs e) =
         map (\<lambda>a. if a_Type a = [] then ''string'' else a_Type a) (d_Attributes v)"
proof -
  from assms have "list_all2 (\<lambda>a t. main_attr a = Inr t) (d_Attributes v) (e_Attrs e)"
    by (rule main_elem_attrs)
  then have "list_all2 (\<lambda>a t. t_Type t = (if a_Type a = [] then ''string'' else a_Type a))
      (d_Attributes v) (e_Attrs e)"
    by (rule list_all2_mono) (rule main_attr_Type)
  then show ?thesis by (rule list_all2_map_eq)
qed

theorem field_type_witness:
  "main_elem ''meter'' meter =
     Inr \<lparr>e_Elem = ''MeterElem'', e_Name = ''meter'', e_Props = ''MeterProps'',
          e_Upper = ''Meter'',
          e_Attrs = [\<lparr>t_Name = ''Value'', t_JS = ''value'', t_Type = ''float64''\<rparr>,
                     \<lparr>t_Name = ''Min'', t_JS = ''min'', t_Type = ''float64''\<rparr>,
                     \<lparr>t_Name = ''Max'', t_JS = ''max'', t_Type = ''float64''\<rparr>,
                     \<lparr>t_Name = ''Low'', t_JS = ''low'', t_Type = ''float64''\<rparr>,
                     \<lparr>t_Name = ''High'', t_JS = ''high'', t_Type = ''float64''\<rparr>,
                     \<lparr>t_Name = ''Optimum'', t_JS = ''optimum'', t_Type = ''float64''\<rparr>,
                     \<lparr>t_Name = ''Form'', t_JS = ''form'', t_Type = ''string''\<rparr>]\<rparr> \<and>
   map (\<lambda>a. if a_Type a = [] then ''string'' else a_Type a) (d_Attributes meter) =
     [''float64'', ''float64'', ''float64'', ''float64'', ''float64'', ''float64'', ''string'']"
proof -
  have m: "main_elem ''meter'' meter =
     Inr \<lparr>e_Elem = ''MeterElem'', e_Name = ''meter'', e_Props = ''MeterProps'',
          e_Upper = ''Meter'',
          e_Attrs = [\<lparr>t_Name = ''Value'', t_JS = ''value'', t_Type = ''float64''\<rparr>,
                     \<lparr>t_Name = ''Min'', t_JS = ''min'', t_Type = ''float64''\<rparr>,
                     \<lparr>t_Name = ''Max'', t_JS = ''max'', t_Type = ''float64''\<rparr>,
                     \<lparr>t_Name = ''Low'', t_JS = ''low'', t_Type = ''float64''\<rparr>,
                     \<lparr>t_Name = ''High'', t_JS = ''high'', t_Type = ''float64''\<rparr>,
                     \<lparr>t_Name = ''Optimum'', t_JS = ''optimum'', t_Type = ''float64''\<rparr>,
                     \<lparr>t_Name = ''Form'', t_JS = ''form'', t_Type = ''string''\<rparr>]\<rparr>"
    by code_simp
  from field_type [OF m] m show ?thesis by simp
qed

text \<open>
  Claim C6. The external name \<open>JS\<close> of every attribute is its name as it is, whatever
  the overrides of the attribute and of the entry.
\<close>

theorem external_name:
  assumes "main_elem k v = Inr e"
  shows "map t_JS (e_Attrs e) = map a_Name (d_Attributes v)"
proof -
  from assms have "list_all2 (\<lambda>a t. main_attr a = Inr t) (d_Attributes v) (e_Attrs e)"
    by (rule main_elem_attrs)
  then have "list_all2 (\<lambda>a t. t_JS t = a_Name a) (d_Attributes v) (e_Attrs e)"
    by (rule list_all2_mono) (rule main_attr_JS)
  then show ?thesis by (rule list_all2_map_eq)
qed

theorem external_name_witness:
  "main_elem ''html'' (Desc0\<lparr>d_Attributes := [Attr0\<lparr>a_Name := ''xmlns'', a_Override := ''XMLNS''\<rparr>],
       d_Override := ''HTML''\<rparr>) =
     Inr \<lparr>e_Elem = ''HTMLElem'', e_Name = ''html'', e_Props = ''HTMLProps'', e_Upper = ''HTML'',
          e_Attrs = [\<lparr>t_Name = ''XMLNS'', t_JS = ''xmlns'', t_Type = ''string''\<rparr>]\<rparr> \<and>
   map a_Name (d_Attributes (Desc0\<lparr>d_Attributes :=
       [Attr0\<lparr>a_Name := ''xmlns'', a_Override := ''XMLNS''\<rparr>], d_Override := ''HTML''\<rparr>)) =
     [''xmlns'']"
proof -
  have m: "main_elem ''html'' (Desc0\<lparr>d_Attributes :=
       [Attr0\<lparr>a_Name := ''xmlns'', a_Override := ''XMLNS''\<rparr>], d_Override := ''HTML''\<rparr>) =
     Inr \<lparr>e_Elem = ''HTMLElem'', e_Name = ''html'', e_Props = ''HTMLProps'', e_Upper = ''HTML'',
          e_Attrs = [\<lparr>t_Name = ''XMLNS'', t_JS = ''xmlns'', t_Type = ''string''\<rparr>]\<rparr>"
    by code_simp
  from external_name [OF m] m show ?thesis by simp
qed

lemma main_attrs_total:
  "\<forall>a\<in>set xs. a_Name a \<noteq> [] \<Longrightarrow> \<exists>rs. main_attrs xs acc = Inr rs"
proof (induction xs arbitrary: acc)
  case Nil
  then show ?case by simp
next
  case (Cons a xs)
  from Cons.prems have "a_Name a \<noteq> []" by simp
  then have "\<exists>t. main_attr a = Inr t"
    by (cases "a_Name a") (auto simp: main_attr_def Let_def)
  then obtain t where t: "main_attr a = Inr t" ..
  from Cons.prems have "\<forall>a\<in>set xs. a_Name a \<noteq> []" by simp
  from Cons.IH [OF this, of "acc @ [t]"] t show ?case by simp
qed

text \<open>
  Claim C7. The derivation returns a value, with no panic, for every non-empty key and
  every entry whose attributes all have a non-empty name; the attribute list may be
  empty, the key and the names may have one byte.
\<close>

theorem derivation_total:
  assumes "k \<noteq> []" and "\<forall>a\<in>set (d_Attributes v). a_Name a \<noteq> []"
  shows "\<exists>e. main_elem k v = Inr e"
proof -
  from assms(1) have "\<exists>u. main_upper k v = Inr u"
    by (cases k) (auto simp: main_upper_def)
  then obtain u where u: "main_upper k v = Inr u" ..
  from main_attrs_total [OF assms(2)] obtain rs where "main_attrs (d_Attributes v) [] = Inr rs"
    by blast
  with u show ?thesis by (simp add: main_elem_def)
qed

theorem derivation_total_witness:
  "''audio'' \<noteq> [] \<and> list_all (\<lambda>a. a_Name a \<noteq> []) (d_Attributes audio) \<and>
   (\<exists>e. main_elem ''audio'' audio = Inr e) \<and>
   ''b'' \<noteq> [] \<and> d_Attributes Desc0 = [] \<and> (\<exists>e. main_elem ''b'' Desc0 = Inr e)"
proof -
  have h: "list_all (\<lambda>a. a_Name a \<noteq> []) (d_Attributes audio)" by code_simp
  then have h': "\<forall>a\<in>set (d_Attributes audio). a_Name a \<noteq> []" by (simp add: list_all_iff)
  have e: "d_Attributes Desc0 = []" by (simp add: Desc0_def)
  then have e': "\<forall>a\<in>set (d_Attributes Desc0). a_Name a \<noteq> []" by simp
  have n: "''audio'' \<noteq> []" "''b'' \<noteq> []" by simp_all
  from derivation_total [OF n(1) h'] derivation_total [OF n(2) e'] h e show ?thesis by simp
qed

section \<open>Template execution\<close>

lemma each_map: "each f (map g xs) = each (\<lambda>x. f (g x)) xs"
  by (induction xs) (simp_all split: sum.splits)

lemma each_Inr: "each (\<lambda>x. Inr (h x)) xs = Inr (concat (map h xs))"
  by (induction xs) simp_all

text \<open>On the values of \<open>templElem\<close>, neither of the two templates fails.\<close>

lemma Execute_primary_total: "\<exists>out. Execute primary (elemValue e) = Inr out"
  by (simp add: Execute_def primary_def primaryTemplate_def elemValue_def attrValue_def
      each_map each_Inr)

lemma Execute_test_total: "\<exists>out. Execute test (elemValue e) = Inr out"
  by (simp add: Execute_def test_def testTemplate_def elemValue_def)

text \<open>
  Claim C9. Nothing detects two attributes with the same field name: for the entry
  \<open>twice_Src\<close> the derivation returns both attributes in the order of the list, the
  range block of the primary template (its node 13) prints both fields \<open>Src\<close> in that
  order, neither template fails, and with a formatter that accepts the text (the
  formatter checks the syntax only) the run returns and writes both files.
\<close>

theorem duplicate_field_names_pass:
  "main_elem ''source'' twice_Src =
     Inr \<lparr>e_Elem = ''SourceElem'', e_Name = ''source'', e_Props = ''SourceProps'',
          e_Upper = ''Source'',
          e_Attrs = [\<lparr>t_Name = ''Src'', t_JS = ''src'', t_Type = ''string''\<rparr>,
                     \<lparr>t_Name = ''Src'', t_JS = ''srcset'', t_Type = ''string''\<rparr>]\<rparr> \<and>
   walk (elemValue \<lparr>e_Elem = ''SourceElem'', e_Name = ''source'', e_Props = ''SourceProps'',
          e_Upper = ''Source'',
          e_Attrs = [\<lparr>t_Name = ''Src'', t_JS = ''src'', t_Type = ''string''\<rparr>,
                     \<lparr>t_Name = ''Src'', t_JS = ''srcset'', t_Type = ''string''\<rparr>]\<rparr>)
      (primaryTemplate ! 13) =
     Inr (''Src string '' @ BQ @ ''js:\"src\"'' @ BQ @ ''\<newline>'' @ TAB @
          ''Src string '' @ BQ @ ''js:\"srcset\"'' @ BQ @ ''\<newline>'' @ TAB) \<and>
   \<not> isl (Execute primary (elemValue \<lparr>e_Elem = ''SourceElem'', e_Name = ''source'',
          e_Props = ''SourceProps'', e_Upper = ''Source'',
          e_Attrs = [\<lparr>t_Name = ''Src'', t_JS = ''src'', t_Type = ''string''\<rparr>,
                     \<lparr>t_Name = ''Src'', t_JS = ''srcset'', t_Type = ''string''\<rparr>]\<rparr>)) \<and>
   \<not> isl (Execute test (elemValue \<lparr>e_Elem = ''SourceElem'', e_Name = ''source'',
          e_Props = ''SourceProps'', e_Upper = ''Source'',
          e_Attrs = [\<lparr>t_Name = ''Src'', t_JS = ''src'', t_Type = ''string''\<rparr>,
                     \<lparr>t_Name = ''Src'', t_JS = ''srcset'', t_Type = ''string''\<rparr>]\<rparr>)) \<and>
   fst (main env_plain [(''source'', twice_Src)]) = Inr () \<and>
   map fst (writes (snd (main env_plain [(''source'', twice_Src)]))) =
     [''source_elem.go'', ''source_elem_test.go'']"
  by code_simp

section \<open>\<open>executeTemplate\<close>\<close>

text \<open>
  Claim C10. When the execution of the template fails, or the formatting of its
  output fails, \<open>executeTemplate\<close> panics with that error and the trace is as before:
  neither \<open>os.Create\<close> nor \<open>Write\<close> is called for that artifact.
\<close>

theorem early_failure_no_call:
  "(Execute t (elemValue e) = Inl err \<longrightarrow>
      executeTemplate env n t e tr = (Inl (Panic err), tr)) \<and>
   (Execute t (elemValue e) = Inr b \<and> format_Source env b = Inl err \<longrightarrow>
      executeTemplate env n t e tr = (Inl (Panic err), tr))"
  by (simp add: executeTemplate_def)

text \<open>
  Both cases: the formatter rejects the text of the primary template, and a template
  names a field \<open>Attributes\<close> that \<open>templElem\<close> does not have.
\<close>

theorem early_failure_witness:
  "(\<exists>b. Execute primary (elemValue \<lparr>e_Elem = ''UElem'', e_Name = ''u'', e_Props = ''UProps'',
            e_Upper = ''U'', e_Attrs = []\<rparr>) = Inr b \<and>
        format_Source env_reject b = Inl ''8:9: expected type, found -'') \<and>
   executeTemplate env_reject ''u_elem.go'' primary
       \<lparr>e_Elem = ''UElem'', e_Name = ''u'', e_Props = ''UProps'', e_Upper = ''U'', e_Attrs = []\<rparr> [] =
     (Inl (Panic ''8:9: expected type, found -''), []) \<and>
   Execute \<lparr>tmpl_name = ''primary'', tmpl_Root = [Range ''Attributes'' []]\<rparr>
       (elemValue \<lparr>e_Elem = ''UElem'', e_Name = ''u'', e_Props = ''UProps'', e_Upper = ''U'',
          e_Attrs = []\<rparr>) = Inl ''can't evaluate field Attributes'' \<and>
   executeTemplate env_plain ''u_elem.go''
       \<lparr>tmpl_name = ''primary'', tmpl_Root = [Range ''Attributes'' []]\<rparr>
       \<lparr>e_Elem = ''UElem'', e_Name = ''u'', e_Props = ''UProps'', e_Upper = ''U'', e_Attrs = []\<rparr> [] =
     (Inl (Panic ''can't evaluate field Attributes''), [])"
proof -
  let ?e = "\<lparr>e_Elem = ''UElem'', e_Name = ''u'', e_Props = ''UProps'', e_Upper = ''U'', e_Attrs = []\<rparr>"
  let ?t = "\<lparr>tmpl_name = ''primary'', tmpl_Root = [Range ''Attributes'' []]\<rparr>"
  obtain b where b: "Execute primary (elemValue ?e) = Inr b"
    using Execute_primary_total by blast
  have f: "format_Source env_reject b = Inl ''8:9: expected type, found -''"
    by (simp add: env_reject_def env_plain_def)
  have x: "Execute ?t (elemValue ?e) = Inl ''can't evaluate field Attributes''"
    by code_simp
  from early_failure_no_call [of primary ?e "''8:9: expected type, found -''" env_reject
      "''u_elem.go''" "[]" b]
    early_failure_no_call [of ?t ?e "''can't evaluate field Attributes''" env_plain
      "''u_elem.go''" "[]"]
    b f x
  show ?thesis by auto
qed

text \<open>When \<open>executeTemplate\<close> panics, it is with the error of one of its four steps.\<close>

lemma executeTemplate_Inl:
  assumes "executeTemplate env n t e tr = (Inl p, tr')"
  shows "\<exists>err. p = Panic err \<and> step_error env n t e tr err"
  using assms
  by (auto simp: executeTemplate_def step_error_def Let_def split: sum.splits option.splits)


section \<open>The loop of \<open>main\<close>\<close>



lemma main_loop_append:
  "main_loop env (xs @ ys) tr =
     (case main_loop env xs tr of
        (Inl p, tr') \<Rightarrow> (Inl p, tr')
      | (Inr u, tr') \<Rightarrow> main_loop env ys tr')"
  by (induction xs arbitrary: tr) (auto split: sum.splits prod.splits)

text \<open>
  Claim C2, as amended. When the rounds before an entry return and executing one of
  the entry's two templates panics, the run ends with that one panic and with the
  trace of that moment, whatever entries come after: no call is made for them. The
  value of the panic is the error of the failing step (of executing the template, of
  the formatter, of \<open>os.Create\<close> or of \<open>Write\<close>) as it is.
\<close>

theorem fail_fast:
  assumes "main env before = (Inr (), tr1)"
    and "main_elem k v = Inr e"
    and "(n = k @ ''_elem.go'' \<and> t = primary \<and> tr0 = tr1) \<or>
         (n = k @ ''_elem_test.go'' \<and> t = test \<and>
          executeTemplate env (k @ ''_elem.go'') primary e tr1 = (Inr (), tr0))"
    and "executeTemplate env n t e tr0 = (Inl p, tr2)"
  shows "main env (before @ (k, v) # after) = (Inl p, tr2) \<and>
         (\<exists>err. p = Panic err \<and> step_error env n t e tr0 err)"
proof
  from assms(2-4) have "main_body env k v tr1 = (Inl p, tr2)"
    by (auto simp: main_body_def)
  with assms(1) show "main env (before @ (k, v) # after) = (Inl p, tr2)"
    by (simp add: main_def main_loop_append)
  from assms(4) show "\<exists>err. p = Panic err \<and> step_error env n t e tr0 err"
    by (rule executeTemplate_Inl)
qed

text \<open>
  The file \<open>u_elem.go\<close> cannot be created: the run over \<open>b\<close>, \<open>u\<close> and \<open>var\<close> ends
  with the error of \<open>os.Create\<close>, after the two files of \<open>b\<close> and that one call.
\<close>

theorem fail_fast_witness:
  "fst (main env_denied [(''b'', Desc0)]) = Inr () \<and>
   main_elem ''u'' Desc0 =
     Inr \<lparr>e_Elem = ''UElem'', e_Name = ''u'', e_Props = ''UProps'', e_Upper = ''U'', e_Attrs = []\<rparr> \<and>
   executeTemplate env_denied (''u'' @ ''_elem.go'') primary
       \<lparr>e_Elem = ''UElem'', e_Name = ''u'', e_Props = ''UProps'', e_Upper = ''U'', e_Attrs = []\<rparr>
       (snd (main env_denied [(''b'', Desc0)])) =
     (Inl (Panic ''open u_elem.go: permission denied''),
      snd (main env_denied [(''b'', Desc0)]) @ [Create ''u_elem.go'']) \<and>
   main env_denied ([(''b'', Desc0)] @ (''u'', Desc0) # [(''var'', Desc0)]) =
     (Inl (Panic ''open u_elem.go: permission denied''),
      snd (main env_denied [(''b'', Desc0)]) @ [Create ''u_elem.go'']) \<and>
   map fst (writes (snd (main env_denied [(''b'', Desc0)]) @ [Create ''u_elem.go''])) =
     [''b_elem.go'', ''b_elem_test.go''] \<and>
   step_error env_denied (''u'' @ ''_elem.go'') primary
       \<lparr>e_Elem = ''UElem'', e_Name = ''u'', e_Props = ''UProps'', e_Upper = ''U'', e_Attrs = []\<rparr>
       (snd (main env_denied [(''b'', Desc0)])) ''open u_elem.go: permission denied''"
proof -
  let ?e = "\<lparr>e_Elem = ''UElem'', e_Name = ''u'', e_Props = ''UProps'', e_Upper = ''U'', e_Attrs = []\<rparr>"
  have a: "fst (main env_denied [(''b'', Desc0)]) = Inr ()"
    by code_simp
  then have a': "main env_denied [(''b'', Desc0)] = (Inr (), snd (main env_denied [(''b'', Desc0)]))"
    by (metis prod.collapse)
  have b: "main_elem ''u'' Desc0 = Inr ?e"
    by code_simp
  have c: "executeTemplate env_denied (''u'' @ ''_elem.go'') primary ?e
       (snd (main env_denied [(''b'', Desc0)])) =
     (Inl (Panic ''open u_elem.go: permission denied''),
      snd (main env_denied [(''b'', Desc0)]) @ [Create ''u_elem.go''])"
    by code_simp
  have w: "map fst (writes (snd (main env_denied [(''b'', Desc0)]) @ [Create ''u_elem.go''])) =
     [''b_elem.go'', ''b_elem_test.go'']"
    by code_simp
  from fail_fast [OF a' b _ c, of "[(''var'', Desc0)]"] a b c w show ?thesis
    by simp
qed

text \<open>
  As C2 is stated it fails in its last part: the report does not identify the entry.
  \<open>panic(err)\<close> passes on the error of the formatter, which knows the text only; the
  entries \<open>h5\<close> and \<open>h6\<close> with the same ill-formed override are rejected at the same
  place of their texts and give the same report. (The stack trace that Go prints with
  a panic names the lines of the source, not the entry of the round.)
\<close>

theorem fail_fast_counterexample:
  "main env_reject [(''h5'', Desc0\<lparr>d_Override := ''Sub-Heading''\<rparr>)] =
     (Inl (Panic ''8:9: expected type, found -''), []) \<and>
   main env_reject [(''h6'', Desc0\<lparr>d_Override := ''Sub-Heading''\<rparr>)] =
     (Inl (Panic ''8:9: expected type, found -''), []) \<and>
   ''h5'' \<noteq> ''h6''"
  by code_simp

subsection \<open>Two runs over the same catalog\<close>






section \<open>Output paths\<close>




















end
